theory Spec2Isabelle
  imports Complex_Main
begin

section \<open>Exceptions\<close>

text \<open>
  The Python exceptions that the stress harness (\<^verbatim>\<open>src/c.py\<close>) can meet in the
  parts modelled here. Where a function returns a value, a raise is \<open>Inl e\<close> of a
  sum type and a normal return \<open>Inr v\<close>; where it acts on the shared state, the
  exception travels beside the state (\<open>Raised e\<close> below).
\<close>

datatype exn = FileNotFoundError | OSError | IndexError | ZeroDivisionError | MemoryError | ValueError

section \<open>The cache worker\<close>

text \<open>
  \<^verbatim>\<open>cache_stress\<close> allocates \<^verbatim>\<open>data = np.zeros(array_size)\<close> and, until the stop
  event is set, repeats one pass:
  \<^verbatim>\<open>
  for i in range(array_size // stride):
      index = i * stride
      data[index] = data[index] * 1.0000000001 + 1.0
  \<close>
  \<open>cache_for\<close> is the \<^verbatim>\<open>for\<close> loop over the remaining values of \<^verbatim>\<open>i\<close>. It threads
  the array and, in addition, the list of indices accessed so far. An index outside
  the array raises \<^verbatim>\<open>IndexError\<close>, as numpy does. The element type and the
  read-modify-write \<open>rmw\<close> (a float64 multiply-add in the source) are parameters:
  no index depends on them.
\<close>

fun cache_for ::
  "('a \<Rightarrow> 'a) \<Rightarrow> nat \<Rightarrow> nat list \<Rightarrow> 'a list \<Rightarrow> nat list \<Rightarrow> exn + ('a list \<times> nat list)" where
  "cache_for rmw stride [] data touched = Inr (data, touched)"
| "cache_for rmw stride (i # rest) data touched =
     (let index = i * stride in
      if index < length data
      then cache_for rmw stride rest (data[index := rmw (data ! index)]) (touched @ [index])
      else Inl IndexError)"

text \<open>One pass: \<^verbatim>\<open>range(array_size // stride)\<close>; Python raises on a zero divisor.\<close>

definition cache_pass ::
  "('a \<Rightarrow> 'a) \<Rightarrow> nat \<Rightarrow> nat \<Rightarrow> 'a list \<Rightarrow> exn + ('a list \<times> nat list)" where
  "cache_pass rmw array_size stride data =
     (if stride = 0 then Inl ZeroDivisionError
      else cache_for rmw stride [0..<array_size div stride] data [])"

text \<open>
  The first pass of \<^verbatim>\<open>cache_stress\<close> with the constants of the source, on the freshly
  allocated array (\<open>zero\<close> stands for the float \<^verbatim>\<open>0.0\<close>).
\<close>

definition cache_stress_pass :: "('a \<Rightarrow> 'a) \<Rightarrow> 'a \<Rightarrow> exn + ('a list \<times> nat list)" where
  "cache_stress_pass rmw zero =
     (let array_size = 256000000;
          stride = 4096;
          data = replicate array_size zero
      in cache_pass rmw array_size stride data)"

section \<open>The shared state\<close>

text \<open>
  The module's globals and the part of the outside world that the functions below act
  on: \<^verbatim>\<open>stop_event = threading.Event()\<close> (initially clear), \<^verbatim>\<open>executor\<close>
  (\<^verbatim>\<open>None\<close> until \<^verbatim>\<open>main\<close> creates the pool; the number is \<^verbatim>\<open>max_workers\<close>), and
  the file at \<^verbatim>\<open>DISK_FILE\<close> (absent, or present with a size in bytes). Everything
  a function does to the outside is appended to \<open>effects\<close>, in program order.

  A console line is recorded by the \<^verbatim>\<open>print\<close> statement that writes it, not by its
  formatted text. \<open>Print held l\<close> records whether the statement stands inside
  \<^verbatim>\<open>with lock:\<close>.
\<close>

record report =
  r_cpu_load :: real
  r_mem_percent :: real
  r_mem_used_gb :: real
  r_disk_read :: real
  r_disk_write :: real
  r_net_sent :: real
  r_net_recv :: real
  r_core_temp :: "real option"

datatype log_line =
    CpuStarting nat
  | CpuError nat exn
  | DiskStarting
  | DiskCreated
  | DiskFatal exn
  | DiskError exn
  | DiskPrecreateError exn
  | DiagnosisStarting
  | Diagnosis report
  | DiagnosisError exn
  | ShuttingDown
  | ExecutorShutdown
  | DeletedFile
  | DeleteWarning exn
  | Complete

datatype effect =
    Print bool log_line
  | PoolShutdown
  | Sleep real
  | RemoveFile
  | CreateFile nat
  | WriteFile nat
  | ReadFile nat

record state =
  stop_event :: bool
  executor :: "nat option"
  disk_file :: "nat option"
  effects :: "effect list"

definition emit :: "effect \<Rightarrow> state \<Rightarrow> state" where
  "emit e s = s\<lparr>effects := effects s @ [e]\<rparr>"

text \<open>\<^verbatim>\<open>stop_event.set()\<close> and \<^verbatim>\<open>stop_event.is_set()\<close>. The source calls no other
  method of the event.\<close>

definition event_set :: "state \<Rightarrow> state" where
  "event_set s = s\<lparr>stop_event := True\<rparr>"

definition is_set :: "state \<Rightarrow> bool" where
  "is_set s = stop_event s"

text \<open>
  How a worker function is left: by \<^verbatim>\<open>return\<close> (also by falling off its end), or
  still in its loop when the modelled schedule ends. Inside a function an
  exception in flight is \<open>Raised e\<close>.
\<close>

datatype outcome = Running | Returned | Raised exn

section \<open>The compute worker\<close>

text \<open>
  \<^verbatim>\<open>
  def cpu_stress(thread_id):
      print(f"[CPU Thread {thread_id}]: Starting matrix multiplication loop...")
      ...
      try:
          while not stop_event.is_set():
              np.dot(a, b)
      except Exception as e:
          if not stop_event.is_set():
              print(f"[CPU Thread {thread_id} ERROR]: {e}")
  \<close>
  The loop has no bound, so the model runs it against a schedule: one entry per
  loop test, saying whether another thread has set the event since the last test
  and which exception, if any, the iteration's call raises. When the schedule ends
  the worker is still \<open>Running\<close>.
\<close>

fun cpu_loop :: "(bool \<times> exn option) list \<Rightarrow> state \<Rightarrow> outcome \<times> state" where
  "cpu_loop [] s = (Running, s)"
| "cpu_loop ((cancelled, dot) # sched) s =
     (let s1 = (if cancelled then event_set s else s) in
      if is_set s1 then (Returned, s1)
      else (case dot of
              None \<Rightarrow> cpu_loop sched s1
            | Some e \<Rightarrow> (Raised e, s1)))"

definition cpu_stress :: "nat \<Rightarrow> (bool \<times> exn option) list \<Rightarrow> state \<Rightarrow> outcome \<times> state" where
  "cpu_stress thread_id sched s =
     (case cpu_loop sched (emit (Print False (CpuStarting thread_id)) s) of
        (Raised e, s1) \<Rightarrow>
          (Returned, if \<not> is_set s1 then emit (Print False (CpuError thread_id e)) s1 else s1)
      | r \<Rightarrow> r)"

section \<open>The memory worker\<close>

text \<open>
  \<^verbatim>\<open>
  memory_chunks = []
  while not stop_event.is_set():
      chunk = [i for i in range(RAM_CHUNK_SIZE // 8)]
      memory_chunks.append(chunk)
      if len(memory_chunks) > 1:
          chunk.reverse()
      if len(memory_chunks) > 4:
          memory_chunks.pop(0)
      time.sleep(0.1)
  \<close>
  Every chunk is a list with the same initial contents, and \<^verbatim>\<open>chunk.reverse()\<close>
  changes the list object that was just appended. To tell the chunks apart a chunk
  carries the number of the allocation that made it (\<open>serial\<close>, counting from 0)
  beside its contents. One loop iteration that completes is one insertion;
  \<open>ram_loop n\<close> is \<open>n\<close> of them. The pause changes nothing in the list
  and is left out.
\<close>

definition RAM_CHUNK_SIZE :: nat where
  "RAM_CHUNK_SIZE = 500 * 4096 * 4096"

record chunk =
  serial :: nat
  elems :: "int list"

record ram_state =
  memory_chunks :: "chunk list"
  allocated :: nat

definition ram_init :: ram_state where
  "ram_init = \<lparr>memory_chunks = [], allocated = 0\<rparr>"

definition ram_iteration :: "nat \<Rightarrow> ram_state \<Rightarrow> ram_state" where
  "ram_iteration chunk_size s =
     (let chunk = \<lparr>serial = allocated s, elems = map int [0..<chunk_size div 8]\<rparr>;
          appended = memory_chunks s @ [chunk];
          reversed = (if length appended > 1
                      then butlast appended @ [chunk\<lparr>elems := rev (elems chunk)\<rparr>]
                      else appended);
          popped = (if length reversed > 4 then tl reversed else reversed)
      in \<lparr>memory_chunks = popped, allocated = Suc (allocated s)\<rparr>)"

fun ram_loop :: "nat \<Rightarrow> nat \<Rightarrow> ram_state \<Rightarrow> ram_state" where
  "ram_loop chunk_size 0 s = s"
| "ram_loop chunk_size (Suc n) s = ram_loop chunk_size n (ram_iteration chunk_size s)"

text \<open>The list of \<^verbatim>\<open>ram_stress\<close> after \<open>n\<close> insertions.\<close>

definition ram_stress :: "nat \<Rightarrow> chunk list" where
  "ram_stress n = memory_chunks (ram_loop RAM_CHUNK_SIZE n ram_init)"

text \<open>
  The chunk of allocation \<open>k\<close> as it stands in the list once its insertion has
  completed: reversed, except for the first, which was alone in the list.
\<close>

definition inserted :: "nat \<Rightarrow> nat \<Rightarrow> chunk" where
  "inserted chunk_size k =
     \<lparr>serial = k,
      elems = (if k = 0 then map int [0..<chunk_size div 8]
               else rev (map int [0..<chunk_size div 8]))\<rparr>"

section \<open>The disk worker\<close>

text \<open>
  \<^verbatim>\<open>write_buffer = os.urandom(4096 * 4096)\<close>, and the file that is created on a
  missing-file error (and by \<^verbatim>\<open>main\<close> before the workers start) holds
  \<^verbatim>\<open>os.urandom(10 * 4096 * 4096)\<close>.
\<close>

definition write_buffer_size :: nat where
  "write_buffer_size = 4096 * 4096"

definition initial_file_size :: nat where
  "initial_file_size = 10 * 4096 * 4096"

text \<open>
  One entry of the disk worker's schedule, per loop test: whether another thread
  has set the event, whether the file has been removed from outside since the last
  iteration, and the error (other than a missing file, which follows from the
  state) that the write or the read meets.
\<close>

record disk_tick =
  cancel :: bool
  unlinked :: bool
  write_fault :: "exn option"
  read_fault :: "exn option"

text \<open>
  \<^verbatim>\<open>with open(DISK_FILE, 'r+b') as f: f.seek(0); f.write(write_buffer)\<close>:
  mode \<^verbatim>\<open>r+b\<close> does not create the file. A write at offset 0 leaves a longer file's
  length alone and extends a shorter one to the buffer's length.
\<close>

definition disk_write :: "exn option \<Rightarrow> state \<Rightarrow> outcome \<times> state" where
  "disk_write fault s =
     (case disk_file s of
        None \<Rightarrow> (Raised FileNotFoundError, s)
      | Some n \<Rightarrow>
          (case fault of
             Some e \<Rightarrow> (Raised e, s)
           | None \<Rightarrow> (Returned,
               emit (WriteFile write_buffer_size) (s\<lparr>disk_file := Some (max n write_buffer_size)\<rparr>))))"

text \<open>\<^verbatim>\<open>with open(DISK_FILE, 'rb') as f: f.seek(0); f.read(len(write_buffer))\<close>\<close>

definition disk_read :: "exn option \<Rightarrow> state \<Rightarrow> outcome \<times> state" where
  "disk_read fault s =
     (case disk_file s of
        None \<Rightarrow> (Raised FileNotFoundError, s)
      | Some n \<Rightarrow>
          (case fault of
             Some e \<Rightarrow> (Raised e, s)
           | None \<Rightarrow> (Returned, emit (ReadFile (min n write_buffer_size)) s)))"

text \<open>The \<^verbatim>\<open>while\<close> loop of \<^verbatim>\<open>disk_stress\<close>, which stands inside the \<^verbatim>\<open>try\<close>.\<close>

fun disk_loop :: "disk_tick list \<Rightarrow> state \<Rightarrow> outcome \<times> state" where
  "disk_loop [] s = (Running, s)"
| "disk_loop (t # sched) s =
     (let s1 = (if cancel t then event_set s else s);
          s2 = (if unlinked t then s1\<lparr>disk_file := None\<rparr> else s1)
      in if is_set s2 then (Returned, s2)
         else (case disk_write (write_fault t) s2 of
                 (Returned, s3) \<Rightarrow>
                   (case disk_read (read_fault t) s3 of
                      (Returned, s4) \<Rightarrow> disk_loop sched s4
                    | r \<Rightarrow> r)
               | r \<Rightarrow> r))"

text \<open>
  \<^verbatim>\<open>with open(DISK_FILE, 'wb') as f: f.write(os.urandom(10 * 4096 * 4096))\<close>.
  Whether it succeeds is the environment's choice: \<open>Created\<close>, or
  \<open>CreateFailed e left\<close> with the exception raised and what the attempt left at
  the path (nothing when \<^verbatim>\<open>open\<close> failed, a shorter file when the write did).
\<close>

datatype create_result = Created | CreateFailed exn "nat option"

definition create_file :: "create_result \<Rightarrow> state \<Rightarrow> outcome \<times> state" where
  "create_file cr s =
     (case cr of
        Created \<Rightarrow> (Returned,
          emit (CreateFile initial_file_size) (s\<lparr>disk_file := Some initial_file_size\<rparr>))
      | CreateFailed e left \<Rightarrow> (Raised e, s\<lparr>disk_file := left\<rparr>))"

text \<open>
  \<^verbatim>\<open>
  def disk_stress():
      print(f"[DISK Thread]: Starting read/write cycle on: {DISK_FILE}")
      write_buffer = os.urandom(4096 * 4096)
      try:
          while not stop_event.is_set():
              ...write, read...
      except FileNotFoundError:
          try:
              with open(DISK_FILE, 'wb') as f:
                  f.write(os.urandom(10 * 4096 * 4096))
              print(f"[DISK Thread INFO]: Created initial file at {DISK_FILE}")
          except Exception as e:
              print(f"[DISK Thread FATAL ERROR]: ...")
              stop_event.set()
      except Exception as e:
          if not stop_event.is_set():
              print(f"[DISK Thread ERROR]: Disk I/O operation failed: {e}")
  \<close>
  Both handlers stand outside the loop: after either, control reaches the end of
  the function. \<open>disk_except\<close> is the two \<^verbatim>\<open>except\<close> clauses, applied to the
  way the loop was left.
\<close>

definition disk_except :: "create_result \<Rightarrow> outcome \<times> state \<Rightarrow> outcome \<times> state" where
  "disk_except cr r =
     (case r of
        (Raised FileNotFoundError, s1) \<Rightarrow>
          (case create_file cr s1 of
             (Raised e, s2) \<Rightarrow> (Returned, event_set (emit (Print False (DiskFatal e)) s2))
           | (r2, s2) \<Rightarrow> (Returned, emit (Print False DiskCreated) s2))
      | (Raised e, s1) \<Rightarrow>
          (Returned, if \<not> is_set s1 then emit (Print False (DiskError e)) s1 else s1)
      | r1 \<Rightarrow> r1)"

definition disk_stress :: "disk_tick list \<Rightarrow> create_result \<Rightarrow> state \<Rightarrow> outcome \<times> state" where
  "disk_stress sched cr s = disk_except cr (disk_loop sched (emit (Print False DiskStarting) s))"

text \<open>
  The disk file, when there is one, is at least as long as the write buffer.
\<close>

definition holds_buffer :: "state \<Rightarrow> bool" where
  "holds_buffer s = (case disk_file s of None \<Rightarrow> True | Some n \<Rightarrow> write_buffer_size \<le> n)"

section \<open>The monitor\<close>

text \<open>
  The counters that \<^verbatim>\<open>psutil.net_io_counters()\<close> and \<^verbatim>\<open>psutil.disk_io_counters()\<close>
  return, with the fields the monitor reads, and everything one iteration samples.
  Python's floats are modelled as reals.
\<close>

record net_io =
  bytes_sent :: int
  bytes_recv :: int

record disk_io =
  read_bytes :: int
  write_bytes :: int

record sample =
  net_io_start :: net_io
  disk_io_start :: disk_io
  net_io_end :: net_io
  disk_io_end :: disk_io
  cpu_load :: real
  mem_percent :: real
  mem_used :: int
  temps :: "(string \<times> real list) list"

definition MONITOR_INTERVAL :: real where
  "MONITOR_INTERVAL = 5"

text \<open>
  \<^verbatim>\<open>
  net_sent = (net_io_end.bytes_sent - net_io_start.bytes_sent) / MONITOR_INTERVAL / (4096 * 4096)
  net_recv = (net_io_end.bytes_recv - net_io_start.bytes_recv) / MONITOR_INTERVAL / (4096 * 4096)
  disk_read = (disk_io_end.read_bytes - disk_io_start.read_bytes) / MONITOR_INTERVAL / (4096 * 4096)
  disk_write = (disk_io_end.write_bytes - disk_io_start.write_bytes) / MONITOR_INTERVAL / (4096 * 4096)
  \<close>
\<close>

definition net_sent :: "sample \<Rightarrow> real" where
  "net_sent x = real_of_int (bytes_sent (net_io_end x) - bytes_sent (net_io_start x))
                  / MONITOR_INTERVAL / real_of_int (4096 * 4096)"

definition net_recv :: "sample \<Rightarrow> real" where
  "net_recv x = real_of_int (bytes_recv (net_io_end x) - bytes_recv (net_io_start x))
                  / MONITOR_INTERVAL / real_of_int (4096 * 4096)"

definition disk_read_rate :: "sample \<Rightarrow> real" where
  "disk_read_rate x = real_of_int (read_bytes (disk_io_end x) - read_bytes (disk_io_start x))
                  / MONITOR_INTERVAL / real_of_int (4096 * 4096)"

definition disk_write_rate :: "sample \<Rightarrow> real" where
  "disk_write_rate x = real_of_int (write_bytes (disk_io_end x) - write_bytes (disk_io_start x))
                  / MONITOR_INTERVAL / real_of_int (4096 * 4096)"

text \<open>Python's \<^verbatim>\<open>max\<close> of a sequence: \<^verbatim>\<open>ValueError\<close> on an empty one.\<close>

fun py_max :: "real list \<Rightarrow> exn + real" where
  "py_max [] = Inl ValueError"
| "py_max (x # xs) = Inr (fold max xs x)"

text \<open>
  \<^verbatim>\<open>
  core_temp = None
  if 'coretemp' in temps:
      core_temp = max(sensor.current for sensor in temps['coretemp'])
  elif 'cpu_thermal' in temps:
      core_temp = max(sensor.current for sensor in temps['cpu_thermal'])
  \<close>
\<close>

definition core_temp :: "(string \<times> real list) list \<Rightarrow> exn + real option" where
  "core_temp ts =
     (case map_of ts ''coretemp'' of
        Some currents \<Rightarrow> map_sum id Some (py_max currents)
      | None \<Rightarrow>
          (case map_of ts ''cpu_thermal'' of
             Some currents \<Rightarrow> map_sum id Some (py_max currents)
           | None \<Rightarrow> Inr None))"

text \<open>
  The body of the monitor's loop after the two snapshots: the report is assembled
  and printed inside \<^verbatim>\<open>with lock:\<close>. \<open>temp_available\<close> is probed once, before
  the loop.
\<close>

definition diagnosis_report :: "bool \<Rightarrow> sample \<Rightarrow> exn + report" where
  "diagnosis_report temp_available x =
     (case (if temp_available then core_temp (temps x) else Inr None) of
        Inl e \<Rightarrow> Inl e
      | Inr t \<Rightarrow> Inr \<lparr>r_cpu_load = cpu_load x,
                     r_mem_percent = mem_percent x,
                     r_mem_used_gb = real_of_int (mem_used x) / real_of_int (4096 ^ 3),
                     r_disk_read = disk_read_rate x,
                     r_disk_write = disk_write_rate x,
                     r_net_sent = net_sent x,
                     r_net_recv = net_recv x,
                     r_core_temp = t\<rparr>)"

text \<open>
  The monitor's schedule has, per loop test, whether another thread has set the
  event and what the iteration samples: the readings, or the exception that the
  first call of the metrics library raises (before the interval's sleep).
\<close>

fun diagnosis_loop :: "bool \<Rightarrow> (bool \<times> (exn + sample)) list \<Rightarrow> state \<Rightarrow> outcome \<times> state" where
  "diagnosis_loop temp_available [] s = (Running, s)"
| "diagnosis_loop temp_available ((cancelled, readings) # sched) s =
     (let s1 = (if cancelled then event_set s else s) in
      if is_set s1 then (Returned, s1)
      else (case readings of
              Inl e \<Rightarrow> (Raised e, s1)
            | Inr x \<Rightarrow>
                (let s2 = emit (Sleep MONITOR_INTERVAL) s1 in
                 case diagnosis_report temp_available x of
                   Inl e \<Rightarrow> (Raised e, s2)
                 | Inr r \<Rightarrow> diagnosis_loop temp_available sched
                             (emit (Print True (Diagnosis r)) s2))))"

definition diagnosis_monitor ::
  "bool \<Rightarrow> (bool \<times> (exn + sample)) list \<Rightarrow> state \<Rightarrow> outcome \<times> state" where
  "diagnosis_monitor temp_available sched s =
     (case diagnosis_loop temp_available sched (emit (Print False DiagnosisStarting) s) of
        (Raised e, s1) \<Rightarrow>
          (Returned, if \<not> is_set s1 then emit (Print False (DiagnosisError e)) s1 else s1)
      | r \<Rightarrow> r)"

section \<open>Startup and shutdown\<close>

text \<open>
  \<^verbatim>\<open>main\<close> creates the disk file when it is missing, and only reports a failure:
  \<^verbatim>\<open>
  try:
      if not os.path.exists(DISK_FILE):
          with open(DISK_FILE, 'wb') as f:
              f.write(os.urandom(10 * 4096 * 4096))
  except Exception as e:
      print(f"[ERROR]: Could not pre-create disk file. Disk stress test may fail: {e}")
  \<close>
\<close>

definition precreate_disk_file :: "create_result \<Rightarrow> state \<Rightarrow> state" where
  "precreate_disk_file cr s =
     (if disk_file s = None
      then (case create_file cr s of
              (Raised e, s1) \<Rightarrow> emit (Print False (DiskPrecreateError e)) s1
            | (r, s1) \<Rightarrow> s1)
      else s)"

text \<open>
  \<^verbatim>\<open>
  def cleanup():
      global executor
      if stop_event.is_set():
          return # Already cleaning up
      print("\n[INFO]: Keyboard interrupt received. Shutting down threads...")
      stop_event.set()
      if executor:
          print("[INFO]: Executor shutdown initiated.")
          executor.shutdown(wait=False, cancel_futures=True)
      time.sleep(2)
      try:
          if os.path.exists(DISK_FILE):
              os.remove(DISK_FILE)
              print(f"[INFO]: Successfully deleted temporary file {DISK_FILE}")
      except Exception as e:
          print(f"[WARNING]: Could not delete temporary file {DISK_FILE}: {e}")
      print("[INFO]: Stress test complete.")
  \<close>
  \<^verbatim>\<open>main\<close> registers it with \<^verbatim>\<open>atexit\<close>; nothing else calls it. \<open>remove_fault\<close> is
  the exception that \<^verbatim>\<open>os.remove\<close> raises, if any.
\<close>

definition remove_disk_file :: "exn option \<Rightarrow> state \<Rightarrow> state" where
  "remove_disk_file remove_fault s =
     (case disk_file s of
        None \<Rightarrow> s
      | Some n \<Rightarrow>
          (case remove_fault of
             Some e \<Rightarrow> emit (Print False (DeleteWarning e)) s
           | None \<Rightarrow> emit (Print False DeletedFile) (emit RemoveFile (s\<lparr>disk_file := None\<rparr>))))"

definition cleanup :: "exn option \<Rightarrow> state \<Rightarrow> state" where
  "cleanup remove_fault s =
     (if is_set s then s
      else
        (let s1 = event_set (emit (Print False ShuttingDown) s);
             s2 = (if executor s1 \<noteq> None
                   then emit PoolShutdown (emit (Print False ExecutorShutdown) s1)
                   else s1);
             s3 = emit (Sleep 2) s2;
             s4 = remove_disk_file remove_fault s3
         in emit (Print False Complete) s4))"






section \<open>Runs of the program\<close>

text \<open>
  A state of the running harness, used for concrete runs: nothing cancelled, the
  pool created for four compute workers and the seven others, the disk file in
  place at its initial size, nothing done yet.
\<close>

definition running_state :: state where
  "running_state = \<lparr>stop_event = False, executor = Some 11, disk_file = Some initial_file_size, effects = []\<rparr>"

text \<open>A loop test of the disk worker at which nothing happens from outside.\<close>

definition quiet_tick :: disk_tick where
  "quiet_tick = \<lparr>cancel = False, unlinked = False, write_fault = None, read_fault = None\<rparr>"

text \<open>
  The snapshots of the specification's example: nothing sent or received at the
  start, 10,485,760 bytes sent and 5,242,880 received one interval later.
\<close>

definition spec_example :: sample where
  "spec_example =
     \<lparr>net_io_start = \<lparr>bytes_sent = 0, bytes_recv = 0\<rparr>,
      disk_io_start = \<lparr>read_bytes = 0, write_bytes = 0\<rparr>,
      net_io_end = \<lparr>bytes_sent = 10485760, bytes_recv = 5242880\<rparr>,
      disk_io_end = \<lparr>read_bytes = 0, write_bytes = 0\<rparr>,
      cpu_load = 0, mem_percent = 0, mem_used = 0, temps = []\<rparr>"

text \<open>
  The operations of the program on the shared state: a \<^verbatim>\<open>stop_event.set()\<close> by
  any caller, and a run of one of the functions above against a schedule (which
  also carries the \<^verbatim>\<open>set()\<close> calls other threads make meanwhile). \<open>observe\<close>
  performs a list of operations one after the other and reads
  \<^verbatim>\<open>stop_event.is_set()\<close> after each.
\<close>

datatype action =
    SetEvent
  | RunCleanup "exn option"
  | RunPrecreate create_result
  | RunCpu nat "(bool \<times> exn option) list"
  | RunDisk "disk_tick list" create_result
  | RunMonitor bool "(bool \<times> (exn + sample)) list"

fun perform :: "action \<Rightarrow> state \<Rightarrow> state" where
  "perform SetEvent s = event_set s"
| "perform (RunCleanup f) s = cleanup f s"
| "perform (RunPrecreate cr) s = precreate_disk_file cr s"
| "perform (RunCpu thread_id sched) s = snd (cpu_stress thread_id sched s)"
| "perform (RunDisk sched cr) s = snd (disk_stress sched cr s)"
| "perform (RunMonitor temp_available sched) s = snd (diagnosis_monitor temp_available sched s)"

fun perform_all :: "action list \<Rightarrow> state \<Rightarrow> state" where
  "perform_all [] s = s"
| "perform_all (a # as) s = perform_all as (perform a s)"

fun observe :: "action list \<Rightarrow> state \<Rightarrow> bool list" where
  "observe [] s = []"
| "observe (a # as) s = is_set (perform a s) # observe as (perform a s)"

section \<open>Properties of the cache worker\<close>

lemma cache_for_ok:
  assumes "\<forall>i \<in> set is. i * stride < length data" and "distinct is" and "0 < stride"
  shows "\<exists>data'. cache_for rmw stride is data touched
            = Inr (data', touched @ map (\<lambda>i. i * stride) is)
     \<and> length data' = length data
     \<and> (\<forall>k < length data. data' ! k =
           (if k \<in> (\<lambda>i. i * stride) ` set is then rmw (data ! k) else data ! k))"
  using assms
proof (induction "is" arbitrary: data touched)
  case Nil
  then show ?case by simp
next
  case (Cons i rest)
  let ?d = "data[i * stride := rmw (data ! (i * stride))]"
  have inb: "i * stride < length data"
    using Cons.prems(1) by simp
  have "\<forall>j \<in> set rest. j * stride < length ?d"
    using Cons.prems(1) by simp
  moreover have "distinct rest"
    using Cons.prems(2) by simp
  ultimately obtain data' where
    run: "cache_for rmw stride rest ?d (touched @ [i * stride])
            = Inr (data', (touched @ [i * stride]) @ map (\<lambda>i. i * stride) rest)"
    and len: "length data' = length ?d"
    and elems: "\<forall>k < length ?d. data' ! k =
           (if k \<in> (\<lambda>i. i * stride) ` set rest then rmw (?d ! k) else ?d ! k)"
    using Cons.IH[of ?d "touched @ [i * stride]"] Cons.prems(3) by blast
  have notin: "i * stride \<notin> (\<lambda>i. i * stride) ` set rest"
    using Cons.prems(2,3) by auto
  have "\<forall>k < length data. data' ! k =
          (if k \<in> (\<lambda>i. i * stride) ` set (i # rest) then rmw (data ! k) else data ! k)"
  proof (intro allI impI)
    fix k
    assume k: "k < length data"
    show "data' ! k =
          (if k \<in> (\<lambda>i. i * stride) ` set (i # rest) then rmw (data ! k) else data ! k)"
    proof (cases "k = i * stride")
      case True
      then show ?thesis using elems k notin by simp
    next
      case False
      then show ?thesis using elems k by auto
    qed
  qed
  then show ?case
    using run len inb by (simp add: Let_def)
qed

lemma strided_index_bound:
  fixes array_size :: nat
  assumes "0 < stride" and "i < array_size div stride"
  shows "i * stride < array_size"
proof -
  have "Suc i \<le> array_size div stride"
    using assms(2) by simp
  then have "Suc i * stride \<le> array_size div stride * stride"
    by (rule mult_le_mono1)
  also have "\<dots> \<le> array_size"
    by simp
  finally show ?thesis
    using assms(1) by simp
qed

lemma cache_pass_ok:
  assumes "0 < stride" and "length data = array_size"
  shows "\<exists>data'. cache_pass rmw array_size stride data
            = Inr (data', map (\<lambda>i. i * stride) [0..<array_size div stride])
     \<and> length data' = array_size
     \<and> (\<forall>k < array_size. data' ! k =
           (if k \<in> (\<lambda>i. i * stride) ` {0..<array_size div stride}
            then rmw (data ! k) else data ! k))"
proof -
  have "\<forall>i \<in> set [0..<array_size div stride]. i * stride < length data"
    using assms strided_index_bound by simp
  from cache_for_ok[OF this _ assms(1), of rmw "[]"] show ?thesis
    using assms by (simp add: cache_pass_def)
qed

text \<open>
  Claim C10. In the inner loop of the cache worker every \<open>i\<close> below
  \<open>array_size div stride\<close> gives an index \<open>i * stride\<close> inside the array of
  \<open>array_size\<close> elements, so a pass returns normally and never raises
  \<^verbatim>\<open>IndexError\<close>; in particular the pass with the source's constants does not.
\<close>

theorem cache_index_in_bounds:
  assumes "0 < stride" and "length data = array_size"
  shows "(\<forall>i < array_size div stride. i * stride < length data)
     \<and> (\<exists>data' touched. cache_pass rmw array_size stride data = Inr (data', touched))
     \<and> cache_pass rmw array_size stride data \<noteq> Inl IndexError
     \<and> cache_stress_pass rmw zero \<noteq> Inl IndexError"
proof -
  have a: "\<forall>i < array_size div stride. i * stride < length data"
    using assms strided_index_bound by simp
  obtain data' where b: "cache_pass rmw array_size stride data
      = Inr (data', map (\<lambda>i. i * stride) [0..<array_size div stride])"
    using cache_pass_ok[OF assms, of rmw] by blast
  obtain data'' where c: "cache_pass rmw 256000000 4096 (replicate 256000000 zero)
      = Inr (data'', map (\<lambda>i. i * 4096) [0..<256000000 div 4096])"
    using cache_pass_ok[of 4096 "replicate 256000000 zero" 256000000 rmw] by auto
  have d: "cache_stress_pass rmw zero \<noteq> Inl IndexError"
    unfolding cache_stress_pass_def Let_def using c by simp
  show ?thesis using a b d by simp
qed

text \<open>The hypotheses hold for a ten-element array walked with stride 3.\<close>

theorem cache_index_in_bounds_witness:
  "(0::nat) < 3 \<and> length (replicate 10 (0::int)) = 10
   \<and> cache_pass (\<lambda>x. x + 1) 10 3 (replicate 10 (0::int))
       = Inr ([1, 0, 0, 1, 0, 0, 1, 0, 0, 0], [0, 3, 6])
   \<and> cache_pass (\<lambda>x. x + 1) 10 3 (replicate 10 (0::int)) \<noteq> Inl IndexError"
proof -
  have h1: "(0::nat) < 3" by simp
  have h2: "length (replicate 10 (0::int)) = 10" by simp
  have ev: "cache_pass (\<lambda>x. x + 1) 10 3 (replicate 10 (0::int))
       = Inr ([1, 0, 0, 1, 0, 0, 1, 0, 0, 0], [0, 3, 6])"
    by code_simp
  show ?thesis
    using cache_index_in_bounds[OF h1 h2, of "\<lambda>x. x + 1" 0] h1 h2 ev by simp
qed

lemma strided_image:
  "(k \<in> (\<lambda>i. i * 4096) ` {0..<62500}) = (4096 dvd k \<and> k < (256000000::nat))"
proof
  assume "k \<in> (\<lambda>i. i * 4096) ` {0..<62500}"
  then obtain i where "i < 62500" "k = i * 4096" by auto
  then show "4096 dvd k \<and> k < 256000000" by simp
next
  assume a: "4096 dvd k \<and> k < 256000000"
  then have "k = (k div 4096) * 4096" by simp
  moreover have "k div 4096 < 62500" using a by (simp add: div_less_iff_less_mult)
  ultimately show "k \<in> (\<lambda>i. i * 4096) ` {0..<62500}" by (metis atLeastLessThan_iff image_eqI zero_le)
qed

text \<open>
  Claim C7. One pass of the cache worker with array size 256,000,000 and stride
  4096 returns normally, having accessed exactly the 62,500 = 256,000,000 div 4096
  indices \<open>0, 4096, 8192, \<dots>\<close>, each once and each a multiple of the stride;
  afterwards exactly the elements at the multiples of 4096 have been
  read-modify-written.
\<close>

theorem cache_pass_touches_62500:
  "\<exists>data' touched. cache_stress_pass rmw zero = Inr (data', touched)
     \<and> touched = map (\<lambda>i. i * 4096) [0..<256000000 div 4096]
     \<and> length touched = 62500
     \<and> distinct touched
     \<and> (\<forall>k \<in> set touched. 4096 dvd k \<and> k < 256000000)
     \<and> length data' = 256000000
     \<and> (\<forall>k < 256000000. data' ! k = (if 4096 dvd k then rmw zero else zero))"
proof -
  obtain data' where run: "cache_pass rmw 256000000 4096 (replicate 256000000 zero)
      = Inr (data', map (\<lambda>i. i * 4096) [0..<256000000 div 4096])"
    and len: "length data' = 256000000"
    and el: "\<forall>k < 256000000. data' ! k =
           (if k \<in> (\<lambda>i. i * 4096) ` {0..<256000000 div 4096}
            then rmw (replicate 256000000 zero ! k) else replicate 256000000 zero ! k)"
    using cache_pass_ok[of 4096 "replicate 256000000 zero" 256000000 rmw] by auto
  let ?t = "map (\<lambda>i. i * (4096::nat)) [0..<256000000 div 4096]"
  have d: "(256000000::nat) div 4096 = 62500" by simp
  have 1: "cache_stress_pass rmw zero = Inr (data', ?t)"
    unfolding cache_stress_pass_def Let_def using run by simp
  have 2: "length ?t = 62500" by simp
  have 3: "distinct ?t" by (simp add: distinct_map inj_on_def)
  have 4: "\<forall>k \<in> set ?t. 4096 dvd k \<and> k < 256000000"
    using strided_image by (simp add: d)
  have 5: "\<forall>k < 256000000. data' ! k = (if 4096 dvd k then rmw zero else zero)"
    using el strided_image by (simp add: d)
  show ?thesis using 1 2 3 4 5 len by blast
qed

text \<open>Index 8192 is accessed and its element rewritten, index 8193 is not.\<close>

theorem cache_pass_touches_62500_witness:
  "\<exists>data' touched. cache_stress_pass (\<lambda>x. x + 1) (0::int) = Inr (data', touched)
     \<and> length touched = 62500 \<and> 8192 \<in> set touched \<and> (4096::nat) dvd 8192
     \<and> data' ! 8192 = 1 \<and> data' ! 8193 = 0"
proof -
  obtain data' touched where
    run: "cache_stress_pass (\<lambda>x. x + 1) (0::int) = Inr (data', touched)"
    and t: "touched = map (\<lambda>i. i * 4096) [0..<256000000 div 4096]"
    and len: "length touched = 62500"
    and el: "\<forall>k < 256000000. data' ! k = (if 4096 dvd k then (0::int) + 1 else 0)"
    using cache_pass_touches_62500[of "\<lambda>x. x + 1" "0::int"] by blast
  have "(8192::nat) = 2 * 4096" by simp
  then have m: "8192 \<in> set touched" unfolding t by (simp del: mult_numeral_left)
  have "data' ! 8192 = 1" using el by simp
  moreover have "data' ! 8193 = 0" using el by simp
  ultimately show ?thesis using run len m by simp
qed

section \<open>Properties of the memory worker\<close>

lemma ram_loop_Suc: "ram_loop sz (Suc n) s = ram_iteration sz (ram_loop sz n s)"
  by (induction n arbitrary: s) simp_all

lemma ram_iteration_window:
  assumes "memory_chunks s = map (inserted sz) [n - 4..<n]" and "allocated s = n"
  shows "ram_iteration sz s = \<lparr>memory_chunks = map (inserted sz) [Suc n - 4..<Suc n], allocated = Suc n\<rparr>"
proof -
  let ?fresh = "\<lparr>serial = n, elems = map int [0..<sz div 8]\<rparr>"
  let ?app = "map (inserted sz) [n - 4..<n] @ [?fresh]"
  let ?rev = "(if length ?app > 1 then butlast ?app @ [?fresh\<lparr>elems := rev (elems ?fresh)\<rparr>] else ?app)"
  have r: "?rev = map (inserted sz) [n - 4..<Suc n]"
  proof (cases "n = 0")
    case True
    then show ?thesis by (simp add: inserted_def)
  next
    case False
    then have "length ?app > 1" by simp
    moreover have "?fresh\<lparr>elems := rev (elems ?fresh)\<rparr> = inserted sz n"
      using False by (simp add: inserted_def)
    ultimately show ?thesis by simp
  qed
  have p: "(if length ?rev > 4 then tl ?rev else ?rev) = map (inserted sz) [Suc n - 4..<Suc n]"
  proof (cases "4 \<le> n")
    case True
    then have "length (map (inserted sz) [n - 4..<Suc n]) > 4" by simp
    moreover have "tl (map (inserted sz) [n - 4..<Suc n]) = map (inserted sz) [Suc n - 4..<Suc n]"
    proof -
      have "Suc n - 4 = Suc (n - 4)" using True by simp
      moreover have "tl (map (inserted sz) [n - 4..<Suc n]) = map (inserted sz) (tl [n - 4..<Suc n])"
        by (rule map_tl[symmetric])
      ultimately show ?thesis by (simp only: tl_upt)
    qed
    ultimately show ?thesis unfolding r by presburger
  next
    case False
    then have "\<not> length (map (inserted sz) [n - 4..<Suc n]) > 4" by simp
    moreover have "Suc n - 4 = n - 4" using False by simp
    ultimately show ?thesis unfolding r by presburger
  qed
  show ?thesis
    unfolding ram_iteration_def Let_def assms using p by simp
qed

lemma ram_loop_window:
  "ram_loop sz n ram_init = \<lparr>memory_chunks = map (inserted sz) [n - 4..<n], allocated = n\<rparr>"
proof (induction n)
  case 0
  then show ?case by (simp add: ram_init_def)
next
  case (Suc n)
  show ?case
    unfolding ram_loop_Suc using ram_iteration_window[of "ram_loop sz n ram_init" sz n] Suc by simp
qed

lemma ram_iteration_bounded:
  "length (memory_chunks s) \<le> 4 \<Longrightarrow> length (memory_chunks (ram_iteration sz s)) \<le> 4"
  by (simp add: ram_iteration_def Let_def)

lemma last_four:
  assumes "5 \<le> n"
  shows "[n - 4..<n] = [n - 4, n - 3, n - 2, n - 1]"
proof -
  define m where "m = n - 4"
  have n: "n = m + 4" using assms by (simp add: m_def)
  have "[m..<m + 4] = [m, m + 1, m + 2, m + 3]"
    by (simp add: upt_conv_Cons)
  then show ?thesis
    unfolding n by (simp add: numeral_eq_Suc)
qed



text \<open>
  Claim C6. After \<open>n \<ge> 5\<close> insertions by the memory worker, starting from the
  empty list, the list holds exactly four chunks: those of the four latest
  allocations \<open>n - 4, \<dots>, n - 1\<close>, oldest first (each in its reversed state).
  After any number of completed insertions the list holds at most four chunks.
\<close>

theorem ring_keeps_last_four:
  assumes "5 \<le> n"
  shows "length (memory_chunks (ram_loop chunk_size n ram_init)) = 4
     \<and> map serial (memory_chunks (ram_loop chunk_size n ram_init)) = [n - 4, n - 3, n - 2, n - 1]
     \<and> memory_chunks (ram_loop chunk_size n ram_init)
           = map (inserted chunk_size) [n - 4, n - 3, n - 2, n - 1]
     \<and> (\<forall>m. length (memory_chunks (ram_loop chunk_size m ram_init)) \<le> 4)
     \<and> length (ram_stress n) = 4
     \<and> map serial (ram_stress n) = [n - 4, n - 3, n - 2, n - 1]"
proof -
  have w: "\<And>sz. memory_chunks (ram_loop sz n ram_init) = map (inserted sz) [n - 4, n - 3, n - 2, n - 1]"
    using last_four[OF assms] by (simp add: ram_loop_window)
  have s: "\<And>sz. map serial (map (inserted sz) [n - 4, n - 3, n - 2, n - 1]) = [n - 4, n - 3, n - 2, n - 1]"
    by (simp add: inserted_def)
  have b: "\<forall>m. length (memory_chunks (ram_loop chunk_size m ram_init)) \<le> 4"
  proof
    fix m :: nat
    have "m - (m - 4) \<le> 4" by arith
    then show "length (memory_chunks (ram_loop chunk_size m ram_init)) \<le> 4"
      by (simp add: ram_loop_window)
  qed
  show ?thesis
    unfolding ram_stress_def w s using b by simp
qed

text \<open>Six insertions of two-element chunks leave the chunks 2, 3, 4 and 5.\<close>

theorem ring_keeps_last_four_witness:
  "(5::nat) \<le> 6
   \<and> memory_chunks (ram_loop 16 6 ram_init)
       = [\<lparr>serial = 2, elems = [1, 0]\<rparr>, \<lparr>serial = 3, elems = [1, 0]\<rparr>,
          \<lparr>serial = 4, elems = [1, 0]\<rparr>, \<lparr>serial = 5, elems = [1, 0]\<rparr>]
   \<and> length (memory_chunks (ram_loop 16 6 ram_init)) = 4
   \<and> map serial (memory_chunks (ram_loop 16 6 ram_init)) = [2, 3, 4, 5]
   \<and> map serial (ram_stress 6) = [2, 3, 4, 5]"
proof -
  have h: "(5::nat) \<le> 6" by simp
  have ev: "memory_chunks (ram_loop 16 6 ram_init)
       = [\<lparr>serial = 2, elems = [1, 0]\<rparr>, \<lparr>serial = 3, elems = [1, 0]\<rparr>,
          \<lparr>serial = 4, elems = [1, 0]\<rparr>, \<lparr>serial = 5, elems = [1, 0]\<rparr>]"
    by code_simp
  show ?thesis
    using ring_keeps_last_four[OF h, of 16] h ev by (simp add: inserted_def)
qed

section \<open>Properties of the shared state and of shutdown\<close>

lemma emit_fields [simp]:
  "stop_event (emit e s) = stop_event s"
  "executor (emit e s) = executor s"
  "disk_file (emit e s) = disk_file s"
  "effects (emit e s) = effects s @ [e]"
  by (simp_all add: emit_def)

lemma event_set_fields [simp]:
  "stop_event (event_set s) = True"
  "executor (event_set s) = executor s"
  "disk_file (event_set s) = disk_file s"
  "effects (event_set s) = effects s"
  by (simp_all add: event_set_def)

lemma is_set_emit [simp]: "is_set (emit e s) = is_set s"
  by (simp add: is_set_def)

lemma is_set_event_set [simp]: "is_set (event_set s)"
  by (simp add: is_set_def)

lemma is_set_disk_file_update [simp]: "is_set (s\<lparr>disk_file := f\<rparr>) = is_set s"
  by (simp add: is_set_def)

lemma remove_disk_file_fields [simp]:
  "stop_event (remove_disk_file f s) = stop_event s"
  "executor (remove_disk_file f s) = executor s"
  by (simp_all add: remove_disk_file_def split: option.splits)

lemma is_set_remove_disk_file [simp]: "is_set (remove_disk_file f s) = is_set s"
  by (simp add: is_set_def)


lemma is_set_cleanup: "is_set (cleanup f s)"
  by (simp add: cleanup_def Let_def)


























lemma is_set_create_file [simp]: "is_set (snd (create_file cr s)) = is_set s"
  by (simp add: create_file_def split: create_result.splits)

lemma is_set_precreate: "is_set s \<Longrightarrow> is_set (precreate_disk_file cr s)"
  by (simp add: precreate_disk_file_def create_file_def split: create_result.splits)

lemma cpu_loop_when_set: "is_set s \<Longrightarrow> cpu_loop sched s = (if sched = [] then Running else Returned, s)"
  by (cases sched) (auto simp: Let_def is_set_def event_set_def)

lemma is_set_cpu_stress: "is_set s \<Longrightarrow> is_set (snd (cpu_stress i sched s))"
  by (simp add: cpu_stress_def cpu_loop_when_set)

lemma disk_loop_when_set:
  "is_set s \<Longrightarrow> is_set (snd (disk_loop sched s)) \<and> fst (disk_loop sched s) = (if sched = [] then Running else Returned)"
  by (cases sched) (auto simp: Let_def)

lemma is_set_disk_stress: "is_set s \<Longrightarrow> is_set (snd (disk_stress sched cr s))"
  using disk_loop_when_set[of "emit (Print False DiskStarting) s" sched]
  by (cases "disk_loop sched (emit (Print False DiskStarting) s)")
     (auto simp: disk_stress_def disk_except_def split: outcome.splits)

lemma diagnosis_loop_when_set:
  "is_set s \<Longrightarrow> diagnosis_loop ta sched s = (if sched = [] then Running else Returned, if sched \<noteq> [] \<and> fst (hd sched) then event_set s else s)"
  by (cases sched) (auto simp: Let_def)

lemma is_set_diagnosis_monitor: "is_set s \<Longrightarrow> is_set (snd (diagnosis_monitor ta sched s))"
  by (simp add: diagnosis_monitor_def diagnosis_loop_when_set)

lemma perform_keeps_set: "is_set s \<Longrightarrow> is_set (perform a s)"
  by (cases a)
     (simp_all add: is_set_cleanup is_set_precreate is_set_cpu_stress is_set_disk_stress
        is_set_diagnosis_monitor)

lemma observe_when_set: "is_set s \<Longrightarrow> observe acts s = replicate (length acts) True"
  by (induction acts arbitrary: s) (simp_all add: perform_keeps_set)

lemma observe_append: "observe (xs @ ys) s = observe xs s @ observe ys (perform_all xs s)"
  by (induction xs arbitrary: s) simp_all

lemma length_observe [simp]: "length (observe acts s) = length acts"
  by (induction acts arbitrary: s) simp_all

lemma fold_event_set: "callers \<noteq> [] \<Longrightarrow> is_set (fold (\<lambda>c. event_set) callers s)"
  by (induction callers arbitrary: s rule: rev_induct) simp_all

text \<open>
  Claim C4. After any non-empty sequence of \<^verbatim>\<open>set()\<close> calls, whoever the callers
  are, \<^verbatim>\<open>is_set()\<close> is true. In any sequence of the program's operations every
  observation of \<^verbatim>\<open>is_set()\<close> from a \<^verbatim>\<open>set()\<close> call on is true, and when the event is
  set at the start every observation is true: no operation clears the event.
\<close>

theorem token_stays_set:
  "(callers \<noteq> [] \<longrightarrow> is_set (fold (\<lambda>c. event_set) callers s))
   \<and> drop (length pre) (observe (pre @ SetEvent # post) s) = replicate (Suc (length post)) True
   \<and> (is_set s \<longrightarrow> observe acts s = replicate (length acts) True)"
proof -
  have "observe (SetEvent # post) (perform_all pre s) = replicate (Suc (length post)) True"
    by (simp add: observe_when_set)
  then have "drop (length pre) (observe (pre @ SetEvent # post) s) = replicate (Suc (length post)) True"
    by (simp add: observe_append)
  then show ?thesis
    using fold_event_set observe_when_set by blast
qed

text \<open>
  Three callers set the event; a compute worker runs before a \<^verbatim>\<open>set()\<close> and
  shutdown and the disk worker after it.
\<close>

theorem token_stays_set_witness:
  "is_set (fold (\<lambda>c. event_set) [1::nat, 2, 3] running_state)
   \<and> \<not> is_set running_state
   \<and> observe [RunCpu 0 [(False, None)], SetEvent, RunCleanup None, RunDisk [quiet_tick] Created]
        running_state = [False, True, True, True]
   \<and> is_set (event_set running_state)
   \<and> observe [RunCleanup None, RunMonitor True []] (event_set running_state) = [True, True]"
proof -
  have h1: "[1::nat, 2, 3] \<noteq> []" by simp
  have h2: "is_set (event_set running_state)" by simp
  have n: "\<not> is_set running_state"
    by (simp add: running_state_def is_set_def)
  have c: "observe [RunCpu 0 [(False, None)]] running_state = [False]"
    by (simp add: cpu_stress_def running_state_def is_set_def emit_def)
  show ?thesis
    using token_stays_set[of "[1::nat, 2, 3]" running_state "[RunCpu 0 [(False, None)]]"
            "[RunCleanup None, RunDisk [quiet_tick] Created]" "[]"]
          token_stays_set[of "[]::nat list" "event_set running_state" "[]" "[]"
            "[RunCleanup None, RunMonitor True []]"]
          h1 h2 n c
    by (simp add: observe_append)
qed

section \<open>Properties of the monitor\<close>

text \<open>
  Claim C1, at the specification's example: for the snapshots (0, 0) and
  (10,485,760, 5,242,880) taken 5 seconds apart the monitor computes a send rate
  of 1/8 and a receive rate of 1/16, not 2 and 1: the divisor in the source is
  \<open>4096 * 4096 = 2 ^ 24\<close>, not \<open>2 ^ 20\<close>.
\<close>

theorem rates_divide_by_16_MiB:
  "net_sent spec_example = 1 / 8 \<and> net_recv spec_example = 1 / 16
   \<and> net_sent spec_example \<noteq> 2 \<and> net_recv spec_example \<noteq> 1"
  by (simp add: net_sent_def net_recv_def spec_example_def MONITOR_INTERVAL_def)

text \<open>Each of the four rates is a sixteenth of the rate in MiB per second.\<close>

lemma rates_scale:
  "net_sent x * 16 = real_of_int (bytes_sent (net_io_end x) - bytes_sent (net_io_start x))
      / MONITOR_INTERVAL / 2 ^ 20"
  "net_recv x * 16 = real_of_int (bytes_recv (net_io_end x) - bytes_recv (net_io_start x))
      / MONITOR_INTERVAL / 2 ^ 20"
  "disk_read_rate x * 16 = real_of_int (read_bytes (disk_io_end x) - read_bytes (disk_io_start x))
      / MONITOR_INTERVAL / 2 ^ 20"
  "disk_write_rate x * 16 = real_of_int (write_bytes (disk_io_end x) - write_bytes (disk_io_start x))
      / MONITOR_INTERVAL / 2 ^ 20"
  by (simp_all add: net_sent_def net_recv_def disk_read_rate_def disk_write_rate_def
      MONITOR_INTERVAL_def)

section \<open>Properties of the disk worker\<close>

















section \<open>The creation failure and shutdown\<close>

text \<open>
  Claim C3, at a failing input. The disk file is missing and its creation fails
  while writing, which leaves an empty file. The disk worker sets the event and
  returns. \<^verbatim>\<open>cleanup\<close>, called in the state the worker left, returns at its guard:
  no pool shutdown, no wait, and the file stays. Called with the event clear (the
  interrupt's path) on the same file, it does all three.
\<close>

theorem creation_failure_skips_shutdown:
  "disk_stress [quiet_tick] (CreateFailed OSError (Some 0)) (running_state\<lparr>disk_file := None\<rparr>)
     = (Returned, \<lparr>stop_event = True, executor = Some 11, disk_file = Some 0,
          effects = [Print False DiskStarting, Print False (DiskFatal OSError)]\<rparr>)
   \<and> cleanup None \<lparr>stop_event = True, executor = Some 11, disk_file = Some 0,
          effects = [Print False DiskStarting, Print False (DiskFatal OSError)]\<rparr>
     = \<lparr>stop_event = True, executor = Some 11, disk_file = Some 0,
          effects = [Print False DiskStarting, Print False (DiskFatal OSError)]\<rparr>
   \<and> cleanup None \<lparr>stop_event = False, executor = Some 11, disk_file = Some 0, effects = []\<rparr>
     = \<lparr>stop_event = True, executor = Some 11, disk_file = None,
        effects = [Print False ShuttingDown, Print False ExecutorShutdown, PoolShutdown,
                   Sleep 2, RemoveFile, Print False DeletedFile, Print False Complete]\<rparr>"
  by (simp add: disk_stress_def disk_except_def create_file_def quiet_tick_def running_state_def
      emit_def is_set_def event_set_def disk_write_def disk_read_def Let_def cleanup_def
      remove_disk_file_def)

section \<open>Console lines and the lock\<close>

text \<open>
  Claim C9, at a failing input. Compute worker 0 prints its starting line, and
  its error line, outside \<^verbatim>\<open>with lock:\<close>; so does the disk worker, and the
  monitor for its starting line. Only the monitor's report is printed with the
  lock held.
\<close>

theorem worker_lines_printed_without_lock:
  "effects (snd (cpu_stress 0 [] running_state)) = [Print False (CpuStarting 0)]
   \<and> effects (snd (cpu_stress 0 [(False, Some MemoryError)] running_state))
       = [Print False (CpuStarting 0), Print False (CpuError 0 MemoryError)]
   \<and> effects (snd (disk_stress [] Created running_state)) = [Print False DiskStarting]
   \<and> effects (snd (diagnosis_monitor False [(False, Inr spec_example)] running_state))
       = [Print False DiagnosisStarting, Sleep MONITOR_INTERVAL,
          Print True (Diagnosis \<lparr>r_cpu_load = 0, r_mem_percent = 0, r_mem_used_gb = 0,
             r_disk_read = 0, r_disk_write = 0, r_net_sent = 1 / 8, r_net_recv = 1 / 16,
             r_core_temp = None\<rparr>)]"
  by (simp add: cpu_stress_def disk_stress_def disk_except_def diagnosis_monitor_def
      diagnosis_report_def running_state_def spec_example_def emit_def is_set_def Let_def
      net_sent_def net_recv_def disk_read_rate_def disk_write_rate_def MONITOR_INTERVAL_def)

section \<open>The size of the disk file\<close>

lemma holds_buffer_simps [simp]:
  "holds_buffer (emit x s) = holds_buffer s"
  "holds_buffer (event_set s) = holds_buffer s"
  "holds_buffer (s\<lparr>disk_file := None\<rparr>)"
  "holds_buffer (s\<lparr>disk_file := Some n\<rparr>) = (write_buffer_size \<le> n)"
  by (simp_all add: holds_buffer_def)










end
